theory Spec2Isabelle
  imports Complex_Main "HOL-Library.AList" "HOL-Library.Multiset"
begin

section \<open>Python values, dictionaries and exceptions\<close>

text \<open>
  The repository passes documents around as Python dictionaries. A metadata dictionary
  (\<^verbatim>\<open>Dict[str, Any]\<close>) is an association list in insertion order; its values are the
  scalars the repository stores there. Floats do not occur as metadata values in the
  repository's own code and are left out of \<open>pyval\<close>.
\<close>

datatype pyval = PStr string | PInt int | PBool bool | PNone

type_synonym metadata = "(string \<times> pyval) list"

text \<open>Exceptions are values. \<open>External\<close> is whatever a collaborator (OpenAI client,
  ChromaDB collection, the absent \<^verbatim>\<open>VectorStore\<close> and \<^verbatim>\<open>LLMClient\<close>) raises.\<close>

datatype exc = KeyError string | IndexError | External string

text \<open>\<^verbatim>\<open>str(n)\<close> for a non-negative integer: its decimal digits.\<close>

fun str_nat :: "nat \<Rightarrow> string" where
  "str_nat n =
     (if n < 10 then [''0123456789'' ! n]
      else str_nat (n div 10) @ [''0123456789'' ! (n mod 10)])"

text \<open>\<^verbatim>\<open>str(v)\<close> as an f-string applies it to a value.\<close>

fun py_str :: "pyval \<Rightarrow> string" where
  "py_str (PStr s) = s"
| "py_str (PInt i) = (if i < 0 then ''-'' @ str_nat (nat (- i)) else str_nat (nat i))"
| "py_str (PBool b) = (if b then ''True'' else ''False'')"
| "py_str PNone = ''None''"

text \<open>\<^verbatim>\<open>d.get(k, default)\<close> and \<^verbatim>\<open>{**d, k: v}\<close> on an insertion-ordered dictionary.\<close>

definition dict_get :: "('k \<times> 'v) list \<Rightarrow> 'k \<Rightarrow> 'v \<Rightarrow> 'v" where
  "dict_get d k dflt = (case map_of d k of None \<Rightarrow> dflt | Some v \<Rightarrow> v)"

definition dict_set :: "('k \<times> 'v) list \<Rightarrow> 'k \<Rightarrow> 'v \<Rightarrow> ('k \<times> 'v) list" where
  "dict_set d k v = AList.update k v d"

text \<open>\<^verbatim>\<open>sep.join(parts)\<close>.\<close>

fun join :: "string \<Rightarrow> string list \<Rightarrow> string" where
  "join sep [] = []"
| "join sep [x] = x"
| "join sep (x # y # ys) = x @ sep @ join sep (y # ys)"

section \<open>Documents and chunking: \<^verbatim>\<open>doc_processing.py\<close>, \<^verbatim>\<open>document_utils.py\<close>\<close>

text \<open>
  A document is a dictionary with the keys \<^verbatim>\<open>'text'\<close>, \<^verbatim>\<open>'metadata'\<close> and \<^verbatim>\<open>'id'\<close>;
  a field is \<open>None\<close> when the key is absent (\<^verbatim>\<open>add_documents\<close> accepts documents
  without \<^verbatim>\<open>'metadata'\<close> and without \<^verbatim>\<open>'id'\<close>).
\<close>

record document =
  doc_text :: "string option"
  doc_metadata :: "metadata option"
  doc_id :: "string option"

text \<open>
  \<^verbatim>\<open>DocProcessor\<close> and \<^verbatim>\<open>DocumentProcessor\<close> hold one attribute, the third-party
  \<^verbatim>\<open>RecursiveCharacterTextSplitter\<close> built from \<^verbatim>\<open>chunk_size\<close> and \<^verbatim>\<open>chunk_overlap\<close>.
  The splitter is not code of the repository: the processor carries its
  \<^verbatim>\<open>split_text\<close> method as a function, whatever it computes.
\<close>

record DocProcessor =
  text_splitter :: "string \<Rightarrow> string list"

text \<open>
  \<^verbatim>\<open>__init__(chunk_size=1000, chunk_overlap=200)\<close> of both classes: the arguments go
  to the splitter's constructor, here \<open>new_splitter\<close>, and the object is built from what
  it returns. The constructors of the repository check nothing themselves.
\<close>

definition DocProcessor_init ::
  "(int \<Rightarrow> int \<Rightarrow> exc + (string \<Rightarrow> string list)) \<Rightarrow> int option \<Rightarrow> int option
     \<Rightarrow> exc + DocProcessor" where
  "DocProcessor_init new_splitter chunk_size chunk_overlap =
     (case new_splitter (case chunk_size of None \<Rightarrow> 1000 | Some n \<Rightarrow> n)
             (case chunk_overlap of None \<Rightarrow> 200 | Some n \<Rightarrow> n) of
        Inl e \<Rightarrow> Inl e
      | Inr split_text \<Rightarrow> Inr \<lparr> text_splitter = split_text \<rparr>)"

text \<open>One document of \<^verbatim>\<open>chunk_text\<close>'s loop body, for chunk \<open>chunk\<close> at index \<open>i\<close>.\<close>

definition chunk_doc :: "metadata \<Rightarrow> nat \<Rightarrow> nat \<Rightarrow> string \<Rightarrow> document" where
  "chunk_doc metadata n i chunk =
     \<lparr> doc_text = Some chunk,
       doc_metadata =
         Some (dict_set (dict_set metadata ''chunk_id'' (PInt (int i)))
                 ''chunk_count'' (PInt (int n))),
       doc_id = Some (py_str (dict_get metadata ''source'' (PStr ''doc'')) @ ''_'' @ str_nat i) \<rparr>"

text \<open>\<^verbatim>\<open>DocProcessor.chunk_text(text, metadata=None)\<close>.\<close>

definition chunk_text :: "DocProcessor \<Rightarrow> string \<Rightarrow> metadata option \<Rightarrow> document list" where
  "chunk_text self text metadata_arg =
     (let metadata = (case metadata_arg of None \<Rightarrow> [] | Some m \<Rightarrow> m);
          chunks = text_splitter self text
      in map (\<lambda>(i, chunk). chunk_doc metadata (length chunks) i chunk) (enumerate 0 chunks))"

text \<open>
  \<^verbatim>\<open>DocumentProcessor.chunk_text\<close> is the same body inside \<^verbatim>\<open>try\<close>; its handler logs
  and re-raises, and nothing in the body raises once the splitter has returned.
\<close>

definition DocumentProcessor_chunk_text ::
  "DocProcessor \<Rightarrow> string \<Rightarrow> metadata option \<Rightarrow> document list" where
  "DocumentProcessor_chunk_text self text metadata_arg =
     (let metadata = (case metadata_arg of None \<Rightarrow> [] | Some m \<Rightarrow> m);
          chunks = text_splitter self text
      in map (\<lambda>(i, chunk). chunk_doc metadata (length chunks) i chunk) (enumerate 0 chunks))"

text \<open>Reading a key of a document's metadata.\<close>

definition metadata_get :: "string \<Rightarrow> document \<Rightarrow> pyval option" where
  "metadata_get k d = (case doc_metadata d of None \<Rightarrow> None | Some m \<Rightarrow> map_of m k)"

section \<open>The pipeline on OpenAI and ChromaDB: \<^verbatim>\<open>rag_app.py\<close>\<close>

text \<open>
  \<^verbatim>\<open>SimpleRAG\<close> talks to two services, the OpenAI client and a ChromaDB collection, and
  to the module's logger. Their states are threaded explicitly: every method takes the
  world and returns its outcome (\<open>Inl\<close> an exception, \<open>Inr\<close> a value) with the new world.
  The services themselves are third-party code: the object carries their entry points
  as functions on the service's state. An embedding is a list of floats, read as reals;
  only the order of distances matters below.
\<close>

type_synonym embedding = "real list"

datatype log_record = INFO string | ERROR string

record ('c, 'o) world =
  collection :: 'c
  openai :: 'o
  logger :: "log_record list"

text \<open>Keyword arguments of \<^verbatim>\<open>collection.add\<close>.\<close>

record add_request =
  documents :: "string list"
  embeddings :: "embedding list"
  metadatas :: "metadata list"
  ids :: "string list"

text \<open>The dictionary \<^verbatim>\<open>collection.query\<close> returns: one row per query embedding.\<close>

record query_response =
  r_documents :: "string list list"
  r_metadatas :: "metadata list list"
  r_distances :: "real list list"
  r_ids :: "string list list"

record message =
  role :: string
  content :: string

text \<open>Keyword arguments of \<^verbatim>\<open>chat.completions.create\<close>.\<close>

record chat_request =
  model :: string
  messages :: "message list"
  temperature :: real
  max_tokens :: nat

record search_result =
  sr_text :: string
  sr_metadata :: metadata
  sr_distance :: real
  sr_id :: string

record rag_answer =
  question :: string
  answer :: string
  sources :: "search_result list"

text \<open>
  \<open>embeddings_create model input\<close> returns \<^verbatim>\<open>response.data\<close> (its embeddings);
  \<open>chat_completions_create\<close> returns the message contents of \<^verbatim>\<open>response.choices\<close>.
\<close>

record ('c, 'o) SimpleRAG =
  embeddings_create :: "string \<Rightarrow> string \<Rightarrow> 'o \<Rightarrow> (exc + embedding list) \<times> 'o"
  chat_completions_create :: "chat_request \<Rightarrow> 'o \<Rightarrow> (exc + string list) \<times> 'o"
  collection_add :: "add_request \<Rightarrow> 'c \<Rightarrow> (exc + unit) \<times> 'c"
  collection_query :: "embedding list \<Rightarrow> int \<Rightarrow> 'c \<Rightarrow> (exc + query_response) \<times> 'c"
  embedding_model :: string
  chat_model :: string

text \<open>\<^verbatim>\<open>str(e)\<close> of an exception, as the log messages format it.\<close>

fun exc_str :: "exc \<Rightarrow> string" where
  "exc_str (KeyError k) = [CHR 0x27] @ k @ [CHR 0x27]"
| "exc_str IndexError = ''list index out of range''"
| "exc_str (External msg) = msg"

text \<open>\<^verbatim>\<open>except Exception as e: logger.error(f"<msg>{e}"); raise\<close>.\<close>

definition log_and_raise ::
  "string \<Rightarrow> exc \<Rightarrow> ('c, 'o) world \<Rightarrow> (exc + 'a) \<times> ('c, 'o) world" where
  "log_and_raise msg e s = (Inl e, s\<lparr>logger := logger s @ [ERROR (msg @ exc_str e)]\<rparr>)"

text \<open>\<^verbatim>\<open>xs[i]\<close> for an index \<open>i \<ge> 0\<close>.\<close>

definition py_index :: "'a list \<Rightarrow> nat \<Rightarrow> exc + 'a" where
  "py_index xs i = (if i < length xs then Inr (xs ! i) else Inl IndexError)"

text \<open>\<^verbatim>\<open>SimpleRAG.create_embedding\<close>: \<^verbatim>\<open>response.data[0].embedding\<close>.\<close>

definition create_embedding ::
  "('c, 'o) SimpleRAG \<Rightarrow> string \<Rightarrow> ('c, 'o) world \<Rightarrow> (exc + embedding) \<times> ('c, 'o) world" where
  "create_embedding self text s =
     (case embeddings_create self (embedding_model self) text (openai s) of
        (Inl e, o') \<Rightarrow> log_and_raise ''Error creating embedding: '' e (s\<lparr>openai := o'\<rparr>)
      | (Inr data, o') \<Rightarrow>
          (case py_index data 0 of
             Inl e \<Rightarrow> log_and_raise ''Error creating embedding: '' e (s\<lparr>openai := o'\<rparr>)
           | Inr emb \<Rightarrow> (Inr emb, s\<lparr>openai := o'\<rparr>)))"

subsection \<open>\<^verbatim>\<open>add_documents\<close>\<close>

definition empty_request :: add_request where
  "empty_request = \<lparr> documents = [], embeddings = [], metadatas = [], ids = [] \<rparr>"

text \<open>
  The \<^verbatim>\<open>for i, doc in enumerate(documents)\<close> loop: \<open>i\<close> is the index of the next
  document, \<open>acc\<close> the four lists built so far.
\<close>

fun add_documents_loop ::
  "('c, 'o) SimpleRAG \<Rightarrow> nat \<Rightarrow> document list \<Rightarrow> add_request \<Rightarrow> ('c, 'o) world
     \<Rightarrow> (exc + add_request) \<times> ('c, 'o) world" where
  "add_documents_loop self i [] acc s = (Inr acc, s)"
| "add_documents_loop self i (doc # rest) acc s =
     (case doc_text doc of
        None \<Rightarrow> (Inl (KeyError ''text''), s)
      | Some text \<Rightarrow>
          (let metadata = (case doc_metadata doc of None \<Rightarrow> [] | Some m \<Rightarrow> m);
               doc_id' = (case doc_id doc of None \<Rightarrow> ''doc_'' @ str_nat i | Some d \<Rightarrow> d)
           in case create_embedding self text s of
                (Inl e, s') \<Rightarrow> (Inl e, s')
              | (Inr embedding, s') \<Rightarrow>
                  add_documents_loop self (Suc i) rest
                    \<lparr> documents = documents acc @ [text],
                      embeddings = embeddings acc @ [embedding],
                      metadatas = metadatas acc @ [metadata],
                      ids = ids acc @ [doc_id'] \<rparr> s'))"

text \<open>The statements after the loop: the one \<^verbatim>\<open>collection.add\<close> call and the info log.\<close>

definition add_to_collection ::
  "('c, 'o) SimpleRAG \<Rightarrow> nat \<Rightarrow> add_request \<Rightarrow> ('c, 'o) world
     \<Rightarrow> (exc + unit) \<times> ('c, 'o) world" where
  "add_to_collection self n req s =
     (case collection_add self req (collection s) of
        (Inl e, c') \<Rightarrow> log_and_raise ''Error adding documents: '' e (s\<lparr>collection := c'\<rparr>)
      | (Inr u, c') \<Rightarrow>
          (Inr (), s\<lparr>collection := c',
                      logger := logger s
                        @ [INFO (''Added '' @ str_nat n @ '' documents to the collection'')]\<rparr>))"

definition add_documents ::
  "('c, 'o) SimpleRAG \<Rightarrow> document list \<Rightarrow> ('c, 'o) world \<Rightarrow> (exc + unit) \<times> ('c, 'o) world" where
  "add_documents self docs s =
     (case add_documents_loop self 0 docs empty_request s of
        (Inl e, s') \<Rightarrow> log_and_raise ''Error adding documents: '' e s'
      | (Inr req, s') \<Rightarrow> add_to_collection self (length docs) req s')"

subsection \<open>\<^verbatim>\<open>search_documents\<close>\<close>

text \<open>\<^verbatim>\<open>results[key][0][i]\<close>.\<close>

definition cell :: "'a list list \<Rightarrow> nat \<Rightarrow> exc + 'a" where
  "cell rows i = (case py_index rows 0 of Inl e \<Rightarrow> Inl e | Inr row \<Rightarrow> py_index row i)"

text \<open>The result-formatting loop over \<^verbatim>\<open>range(len(results['documents'][0]))\<close>.\<close>

fun format_results :: "query_response \<Rightarrow> nat list \<Rightarrow> exc + search_result list" where
  "format_results results [] = Inr []"
| "format_results results (i # is) =
     (case cell (r_documents results) i of Inl e \<Rightarrow> Inl e | Inr t \<Rightarrow>
      case cell (r_metadatas results) i of Inl e \<Rightarrow> Inl e | Inr m \<Rightarrow>
      case cell (r_distances results) i of Inl e \<Rightarrow> Inl e | Inr d \<Rightarrow>
      case cell (r_ids results) i of Inl e \<Rightarrow> Inl e | Inr k \<Rightarrow>
      case format_results results is of Inl e \<Rightarrow> Inl e | Inr rest \<Rightarrow>
        Inr (\<lparr> sr_text = t, sr_metadata = m, sr_distance = d, sr_id = k \<rparr> # rest))"

definition search_documents ::
  "('c, 'o) SimpleRAG \<Rightarrow> string \<Rightarrow> int \<Rightarrow> ('c, 'o) world
     \<Rightarrow> (exc + search_result list) \<times> ('c, 'o) world" where
  "search_documents self query n_results s =
     (case create_embedding self query s of
        (Inl e, s1) \<Rightarrow> log_and_raise ''Error searching documents: '' e s1
      | (Inr query_embedding, s1) \<Rightarrow>
          (case collection_query self [query_embedding] n_results (collection s1) of
             (Inl e, c') \<Rightarrow>
               log_and_raise ''Error searching documents: '' e (s1\<lparr>collection := c'\<rparr>)
           | (Inr results, c') \<Rightarrow>
               (case py_index (r_documents results) 0 of
                  Inl e \<Rightarrow>
                    log_and_raise ''Error searching documents: '' e (s1\<lparr>collection := c'\<rparr>)
                | Inr row \<Rightarrow>
                    (case format_results results [0..<length row] of
                       Inl e \<Rightarrow>
                         log_and_raise ''Error searching documents: '' e
                           (s1\<lparr>collection := c'\<rparr>)
                     | Inr search_results \<Rightarrow> (Inr search_results, s1\<lparr>collection := c'\<rparr>)))))"

subsection \<open>\<^verbatim>\<open>generate_response\<close> and \<^verbatim>\<open>query\<close>\<close>

text \<open>The f-string of \<^verbatim>\<open>generate_response\<close>, the same text in both pipeline classes.\<close>

definition build_prompt :: "string \<Rightarrow> string \<Rightarrow> string" where
  "build_prompt context query =
     ''Based on the following context, please answer the question.\<newline>\<newline>Context:\<newline>''
     @ context @ ''\<newline>\<newline>Question: '' @ query @ ''\<newline>\<newline>Answer:''"

definition system_instruction :: string where
  "system_instruction =
     ''You are a helpful assistant. Answer questions based on the provided context. If the context doesn't contain relevant information, say so clearly.''"

definition context_of :: "search_result list \<Rightarrow> string" where
  "context_of context_docs = join ''\<newline>\<newline>'' (map sr_text context_docs)"

text \<open>The request \<^verbatim>\<open>SimpleRAG.generate_response\<close> sends.\<close>

definition chat_request_of ::
  "('c, 'o) SimpleRAG \<Rightarrow> string \<Rightarrow> search_result list \<Rightarrow> chat_request" where
  "chat_request_of self query context_docs =
     \<lparr> model = chat_model self,
       messages =
         [\<lparr> role = ''system'', content = system_instruction \<rparr>,
          \<lparr> role = ''user'', content = build_prompt (context_of context_docs) query \<rparr>],
       temperature = 7 / 10,
       max_tokens = 500 \<rparr>"

text \<open>\<^verbatim>\<open>SimpleRAG.generate_response\<close>: \<^verbatim>\<open>response.choices[0].message.content\<close>.\<close>

definition generate_response ::
  "('c, 'o) SimpleRAG \<Rightarrow> string \<Rightarrow> search_result list \<Rightarrow> ('c, 'o) world
     \<Rightarrow> (exc + string) \<times> ('c, 'o) world" where
  "generate_response self query context_docs s =
     (case chat_completions_create self (chat_request_of self query context_docs) (openai s) of
        (Inl e, o') \<Rightarrow> log_and_raise ''Error generating response: '' e (s\<lparr>openai := o'\<rparr>)
      | (Inr choices, o') \<Rightarrow>
          (case py_index choices 0 of
             Inl e \<Rightarrow> log_and_raise ''Error generating response: '' e (s\<lparr>openai := o'\<rparr>)
           | Inr c \<Rightarrow> (Inr c, s\<lparr>openai := o'\<rparr>)))"

text \<open>\<^verbatim>\<open>SimpleRAG.query(question, n_results)\<close>.\<close>

definition query ::
  "('c, 'o) SimpleRAG \<Rightarrow> string \<Rightarrow> int \<Rightarrow> ('c, 'o) world
     \<Rightarrow> (exc + rag_answer) \<times> ('c, 'o) world" where
  "query self q n_results s =
     (case search_documents self q n_results s of
        (Inl e, s1) \<Rightarrow> log_and_raise ''Error in RAG query: '' e s1
      | (Inr relevant_docs, s1) \<Rightarrow>
          (case generate_response self q relevant_docs s1 of
             (Inl e, s2) \<Rightarrow> log_and_raise ''Error in RAG query: '' e s2
           | (Inr response, s2) \<Rightarrow>
               (Inr \<lparr> question = q, answer = response, sources = relevant_docs \<rparr>, s2)))"

text \<open>\<^verbatim>\<open>query(question)\<close> with the default \<^verbatim>\<open>n_results=3\<close>.\<close>

definition query_default ::
  "('c, 'o) SimpleRAG \<Rightarrow> string \<Rightarrow> ('c, 'o) world \<Rightarrow> (exc + rag_answer) \<times> ('c, 'o) world" where
  "query_default self q s = query self q 3 s"

subsection \<open>Vocabulary of the claims about \<^verbatim>\<open>add_documents\<close>\<close>

text \<open>
  Whether some \<^verbatim>\<open>create_embedding\<close> call raises while \<^verbatim>\<open>add_documents\<close> runs over
  \<open>docs\<close> from world \<open>s\<close>: the loop is followed document by document, each call made in
  the world its predecessors left.
\<close>

fun embedding_fails :: "('c, 'o) SimpleRAG \<Rightarrow> document list \<Rightarrow> ('c, 'o) world \<Rightarrow> bool" where
  "embedding_fails self [] s = False"
| "embedding_fails self (doc # rest) s =
     (case doc_text doc of
        None \<Rightarrow> False
      | Some text \<Rightarrow>
          (case create_embedding self text s of
             (Inl e, s') \<Rightarrow> True
           | (Inr emb, s') \<Rightarrow> embedding_fails self rest s'))"

text \<open>The identifier the loop assigns to the document at index \<open>i\<close>.\<close>

definition assigned_id :: "nat \<Rightarrow> document \<Rightarrow> string" where
  "assigned_id i d = (case doc_id d of None \<Rightarrow> ''doc_'' @ str_nat i | Some x \<Rightarrow> x)"

section \<open>The pipeline on the repository's store and client: \<^verbatim>\<open>core_rag.py\<close>\<close>

text \<open>
  \<^verbatim>\<open>CoreRAG\<close> delegates to \<^verbatim>\<open>VectorStore\<close> and \<^verbatim>\<open>LLMClient\<close>, modules of the repository
  that are not among its sources. The object carries the three methods it calls as
  functions on a world \<open>'w\<close>; the \<^verbatim>\<open>llm\<close> argument handed to the store is part of that
  world.
\<close>

record 'w CoreRAG =
  vector_store_add_documents :: "document list \<Rightarrow> string \<Rightarrow> 'w \<Rightarrow> (exc + unit) \<times> 'w"
  vector_store_search :: "string \<Rightarrow> int \<Rightarrow> string \<Rightarrow> 'w \<Rightarrow> (exc + search_result list) \<times> 'w"
  llm_chat :: "string \<Rightarrow> string \<Rightarrow> 'w \<Rightarrow> (exc + string) \<times> 'w"
  core_embedding_model :: string
  core_chat_model :: string

definition CoreRAG_add_documents ::
  "'w CoreRAG \<Rightarrow> document list \<Rightarrow> 'w \<Rightarrow> (exc + unit) \<times> 'w" where
  "CoreRAG_add_documents self docs w =
     vector_store_add_documents self docs (core_embedding_model self) w"

definition CoreRAG_search_documents ::
  "'w CoreRAG \<Rightarrow> string \<Rightarrow> int \<Rightarrow> 'w \<Rightarrow> (exc + search_result list) \<times> 'w" where
  "CoreRAG_search_documents self query_text n_results w =
     vector_store_search self query_text n_results (core_embedding_model self) w"

definition CoreRAG_generate_response ::
  "'w CoreRAG \<Rightarrow> string \<Rightarrow> search_result list \<Rightarrow> 'w \<Rightarrow> (exc + string) \<times> 'w" where
  "CoreRAG_generate_response self query_text context_docs w =
     llm_chat self (build_prompt (context_of context_docs) query_text) (core_chat_model self) w"

definition CoreRAG_query ::
  "'w CoreRAG \<Rightarrow> string \<Rightarrow> int \<Rightarrow> 'w \<Rightarrow> (exc + rag_answer) \<times> 'w" where
  "CoreRAG_query self q n_results w =
     (case CoreRAG_search_documents self q n_results w of
        (Inl e, w1) \<Rightarrow> (Inl e, w1)
      | (Inr relevant_docs, w1) \<Rightarrow>
          (case CoreRAG_generate_response self q relevant_docs w1 of
             (Inl e, w2) \<Rightarrow> (Inl e, w2)
           | (Inr response, w2) \<Rightarrow>
               (Inr \<lparr> question = q, answer = response, sources = relevant_docs \<rparr>, w2)))"

definition CoreRAG_query_default :: "'w CoreRAG \<Rightarrow> string \<Rightarrow> 'w \<Rightarrow> (exc + rag_answer) \<times> 'w" where
  "CoreRAG_query_default self q w = CoreRAG_query self q 3 w"

subsection \<open>The store's search\<close>

record index_entry =
  ie_id :: string
  ie_text :: string
  ie_metadata :: metadata
  ie_embedding :: embedding

definition result_of :: "(embedding \<Rightarrow> embedding \<Rightarrow> real) \<Rightarrow> embedding \<Rightarrow> index_entry \<Rightarrow> search_result" where
  "result_of metric q e =
     \<lparr> sr_text = ie_text e, sr_metadata = ie_metadata e,
       sr_distance = metric q (ie_embedding e), sr_id = ie_id e \<rparr>"

text \<open>
  Modelled from the spec: \<^verbatim>\<open>VectorStore.search(query, n_results, llm, embedding_model)\<close>
  of \<^verbatim>\<open>vector_store.py\<close>, which is missing from the sources. The spec's
  \<^verbatim>\<open>DocumentStore.search\<close> embeds the query, looks the nearest neighbours up among all
  persisted embeddings under one fixed distance metric, and returns up to \<open>k\<close> results
  in ascending distance, ties in insertion order; it does not change the store. The
  store is the list of its entries in insertion order; \<open>metric\<close> is the fixed metric and
  \<open>embed_fn\<close> the embedding collaborator reached through \<^verbatim>\<open>llm\<close>.
\<close>

definition VectorStore_search ::
  "(embedding \<Rightarrow> embedding \<Rightarrow> real) \<Rightarrow> (string \<Rightarrow> string \<Rightarrow> exc + embedding)
     \<Rightarrow> string \<Rightarrow> int \<Rightarrow> string \<Rightarrow> index_entry list
     \<Rightarrow> (exc + search_result list) \<times> index_entry list" where
  "VectorStore_search metric embed_fn query_text k model_name entries =
     (case embed_fn model_name query_text of
        Inl e \<Rightarrow> (Inl e, entries)
      | Inr q \<Rightarrow>
          (Inr (take (nat k) (sort_key sr_distance (map (result_of metric q) entries))),
           entries))"

text \<open>
  Modelled from the spec: the nearest-neighbour query of the persistent collection
  backend, which \<^verbatim>\<open>SimpleRAG.search_documents\<close> reaches as \<^verbatim>\<open>collection.query\<close>; the
  backend is outside the sources and the spec treats it as a nearest-neighbour oracle.
  As for the store above, the collection is the list of its entries in insertion order
  and there is one fixed metric. For each query embedding the answer holds one row per
  key, with the texts, metadata, distances and ids of the up to \<open>k\<close> nearest entries in
  ascending distance; the collection is not changed.
\<close>

definition collection_query_nn ::
  "(embedding \<Rightarrow> embedding \<Rightarrow> real) \<Rightarrow> embedding list \<Rightarrow> int \<Rightarrow> index_entry list
     \<Rightarrow> (exc + query_response) \<times> index_entry list" where
  "collection_query_nn metric query_embeddings k entries =
     (let rows = map (\<lambda>q. take (nat k) (sort_key sr_distance (map (result_of metric q) entries)))
                   query_embeddings
      in (Inr \<lparr> r_documents = map (map sr_text) rows,
                r_metadatas = map (map sr_metadata) rows,
                r_distances = map (map sr_distance) rows,
                r_ids = map (map sr_id) rows \<rparr>, entries))"

section \<open>Test doubles\<close>

text \<open>
  Concrete collaborators on which the theorems below are exercised. The OpenAI double
  counts its embedding and chat calls; it refuses to embed the text \<open>''bad''\<close> and to
  chat under the model \<open>''broken-model''\<close>. The collection double records every
  \<^verbatim>\<open>add\<close> request and answers a query with the recorded texts in recorded order.
\<close>

definition stub_embeddings_create ::
  "string \<Rightarrow> string \<Rightarrow> nat \<times> nat \<Rightarrow> (exc + embedding list) \<times> (nat \<times> nat)" where
  "stub_embeddings_create m input calls =
     (if input = ''bad'' then Inl (External ''embedding failed'')
      else Inr [[real (length input)]],
      (Suc (fst calls), snd calls))"

definition stub_chat_completions_create ::
  "chat_request \<Rightarrow> nat \<times> nat \<Rightarrow> (exc + string list) \<times> (nat \<times> nat)" where
  "stub_chat_completions_create req calls =
     (if model req = ''broken-model'' then Inl (External ''generation failed'')
      else Inr [''an answer''],
      (fst calls, Suc (snd calls)))"

definition stub_collection_add ::
  "add_request \<Rightarrow> add_request list \<Rightarrow> (exc + unit) \<times> add_request list" where
  "stub_collection_add req c = (Inr (), c @ [req])"

definition stub_collection_query ::
  "embedding list \<Rightarrow> int \<Rightarrow> add_request list \<Rightarrow> (exc + query_response) \<times> add_request list" where
  "stub_collection_query qs k c =
     (Inr \<lparr> r_documents = [take (nat k) (concat (map documents c))],
            r_metadatas = [take (nat k) (concat (map metadatas c))],
            r_distances = [take (nat k) (map (\<lambda>_. 0) (concat (map documents c)))],
            r_ids = [take (nat k) (concat (map ids c))] \<rparr>, c)"

definition stub_rag :: "(add_request list, nat \<times> nat) SimpleRAG" where
  "stub_rag =
     \<lparr> embeddings_create = stub_embeddings_create,
       chat_completions_create = stub_chat_completions_create,
       collection_add = stub_collection_add,
       collection_query = stub_collection_query,
       embedding_model = ''text-embedding-3-small'',
       chat_model = ''gpt-4o-mini'' \<rparr>"

definition stub_world :: "(add_request list, nat \<times> nat) world" where
  "stub_world =
     \<lparr> collection =
         [\<lparr> documents = [''alpha''], embeddings = [[5]], metadatas = [[]], ids = [''a''] \<rparr>],
       openai = (0, 0), logger = [] \<rparr>"

definition stub_metric :: "embedding \<Rightarrow> embedding \<Rightarrow> real" where
  "stub_metric u v = \<bar>sum_list u - sum_list v\<bar>"

definition stub_embed :: "string \<Rightarrow> string \<Rightarrow> exc + embedding" where
  "stub_embed m input =
     (if input = ''bad'' then Inl (External ''embedding failed'') else Inr [real (length input)])"

definition stub_core :: "index_entry list CoreRAG" where
  "stub_core =
     \<lparr> vector_store_add_documents = (\<lambda>docs m w. (Inr (), w)),
       vector_store_search = VectorStore_search stub_metric stub_embed,
       llm_chat =
         (\<lambda>prompt m w. (if m = ''broken-model'' then Inl (External ''generation failed'')
                         else Inr ''an answer'', w)),
       core_embedding_model = ''text-embedding-3-small'',
       core_chat_model = ''gpt-4o-mini'' \<rparr>"

definition stub_entries :: "index_entry list" where
  "stub_entries =
     [\<lparr> ie_id = ''a'', ie_text = ''alpha'', ie_metadata = [], ie_embedding = [9] \<rparr>,
      \<lparr> ie_id = ''b'', ie_text = ''beta'', ie_metadata = [], ie_embedding = [4] \<rparr>,
      \<lparr> ie_id = ''c'', ie_text = ''gamma'', ie_metadata = [], ie_embedding = [6] \<rparr>]"

definition stub_docs :: "document list" where
  "stub_docs =
     [\<lparr> doc_text = Some ''first'', doc_metadata = None, doc_id = None \<rparr>,
      \<lparr> doc_text = Some ''second'', doc_metadata = Some [(''topic'', PStr ''demo'')],
        doc_id = Some ''given'' \<rparr>,
      \<lparr> doc_text = Some ''third'', doc_metadata = None, doc_id = None \<rparr>]"

definition bad_doc :: document where
  "bad_doc = \<lparr> doc_text = Some ''bad'', doc_metadata = None, doc_id = None \<rparr>"

definition stub_world_after :: "(add_request list, nat \<times> nat) world" where
  "stub_world_after =
     \<lparr> collection =
         [\<lparr> documents = [''alpha''], embeddings = [[5]], metadatas = [[]], ids = [''a''] \<rparr>,
          \<lparr> documents = [''first'', ''second'', ''third''],
            embeddings = [[5], [6], [5]],
            metadatas = [[], [(''topic'', PStr ''demo'')], []],
            ids = [''doc_0'', ''given'', ''doc_2''] \<rparr>],
       openai = (3, 0),
       logger = [INFO ''Added 3 documents to the collection''] \<rparr>"

section \<open>Counting collaborator calls\<close>

text \<open>
  To speak of retries, a pipeline object is wrapped so that every call of a collaborator
  is counted next to the collaborator's own state: embedding and chat calls beside the
  OpenAI state, \<^verbatim>\<open>add\<close> and \<^verbatim>\<open>query\<close> calls beside the collection.
\<close>

definition counted :: "('c, 'o) SimpleRAG \<Rightarrow> ('c \<times> nat, 'o \<times> nat \<times> nat) SimpleRAG" where
  "counted self =
     \<lparr> embeddings_create =
         (\<lambda>m input (st, ne, nc).
            case embeddings_create self m input st of (r, st') \<Rightarrow> (r, (st', Suc ne, nc))),
       chat_completions_create =
         (\<lambda>req (st, ne, nc).
            case chat_completions_create self req st of (r, st') \<Rightarrow> (r, (st', ne, Suc nc))),
       collection_add =
         (\<lambda>req (c, n). case collection_add self req c of (r, c') \<Rightarrow> (r, (c', Suc n))),
       collection_query =
         (\<lambda>qs k (c, n). case collection_query self qs k c of (r, c') \<Rightarrow> (r, (c', Suc n))),
       embedding_model = embedding_model self,
       chat_model = chat_model self \<rparr>"

text \<open>The three counters of a world of \<open>counted self\<close>.\<close>

definition embedding_calls :: "('c \<times> nat, 'o \<times> nat \<times> nat) world \<Rightarrow> nat" where
  "embedding_calls s = fst (snd (openai s))"

definition chat_calls :: "('c \<times> nat, 'o \<times> nat \<times> nat) world \<Rightarrow> nat" where
  "chat_calls s = snd (snd (openai s))"

definition collection_calls :: "('c \<times> nat, 'o \<times> nat \<times> nat) world \<Rightarrow> nat" where
  "collection_calls s = snd (collection s)"

text \<open>The same for \<^verbatim>\<open>CoreRAG\<close>: searches and chats are counted beside the world.\<close>

definition counted_core :: "'w CoreRAG \<Rightarrow> ('w \<times> nat \<times> nat) CoreRAG" where
  "counted_core self =
     \<lparr> vector_store_add_documents =
         (\<lambda>docs m (w, ns, nc).
            case vector_store_add_documents self docs m w of (r, w') \<Rightarrow> (r, (w', ns, nc))),
       vector_store_search =
         (\<lambda>q k m (w, ns, nc).
            case vector_store_search self q k m w of (r, w') \<Rightarrow> (r, (w', Suc ns, nc))),
       llm_chat =
         (\<lambda>prompt m (w, ns, nc). case llm_chat self prompt m w of (r, w') \<Rightarrow> (r, (w', ns, Suc nc))),
       core_embedding_model = core_embedding_model self,
       core_chat_model = core_chat_model self \<rparr>"

text \<open>Forgetting the counters gives back a world of the original object.\<close>

definition uncounted :: "('c \<times> nat, 'o \<times> nat \<times> nat) world \<Rightarrow> ('c, 'o) world" where
  "uncounted s =
     \<lparr> collection = fst (collection s), openai = fst (openai s), logger = logger s \<rparr>"

definition forget :: "'a \<times> ('c \<times> nat, 'o \<times> nat \<times> nat) world \<Rightarrow> 'a \<times> ('c, 'o) world" where
  "forget p = (fst p, uncounted (snd p))"

text \<open>
  More test doubles: a client that answers with the prompt it was given, two search
  results, and pipelines whose chat model is the one the doubles refuse.
\<close>

definition echo_core :: "unit CoreRAG" where
  "echo_core =
     \<lparr> vector_store_add_documents = (\<lambda>docs m w. (Inr (), w)),
       vector_store_search = (\<lambda>q k m w. (Inr [], w)),
       llm_chat = (\<lambda>prompt m w. (Inr prompt, w)),
       core_embedding_model = ''text-embedding-3-small'',
       core_chat_model = ''gpt-4o-mini'' \<rparr>"

definition ctx_doc :: search_result where
  "ctx_doc = \<lparr> sr_text = ''ctx'', sr_metadata = [], sr_distance = 0, sr_id = ''a'' \<rparr>"

definition alpha_doc :: search_result where
  "alpha_doc = \<lparr> sr_text = ''alpha'', sr_metadata = [], sr_distance = 0, sr_id = ''a'' \<rparr>"

definition broken_rag :: "(add_request list, nat \<times> nat) SimpleRAG" where
  "broken_rag = stub_rag\<lparr>chat_model := ''broken-model''\<rparr>"

definition broken_core :: "index_entry list CoreRAG" where
  "broken_core = stub_core\<lparr>core_chat_model := ''broken-model''\<rparr>"

text \<open>
  Doubles for the search: a pipeline on the collection backend above whose chat double
  answers with the user message it was sent, a world around a list of entries, the
  \<^verbatim>\<open>CoreRAG\<close> double with a client that answers with its prompt, and the three stored
  entries as the query \<open>''query''\<close> ranks them.
\<close>

definition echo_chat_completions_create ::
  "chat_request \<Rightarrow> nat \<times> nat \<Rightarrow> (exc + string list) \<times> (nat \<times> nat)" where
  "echo_chat_completions_create req calls =
     (Inr (map content (filter (\<lambda>m. role m = ''user'') (messages req))),
      (fst calls, Suc (snd calls)))"

definition nn_collection_add ::
  "add_request \<Rightarrow> index_entry list \<Rightarrow> (exc + unit) \<times> index_entry list" where
  "nn_collection_add req c =
     (Inr (),
      c @ map (\<lambda>(i, t, m, e). \<lparr> ie_id = i, ie_text = t, ie_metadata = m, ie_embedding = e \<rparr>)
            (zip (ids req) (zip (documents req) (zip (metadatas req) (embeddings req)))))"

definition nn_rag :: "(index_entry list, nat \<times> nat) SimpleRAG" where
  "nn_rag =
     \<lparr> embeddings_create = stub_embeddings_create,
       chat_completions_create = echo_chat_completions_create,
       collection_add = nn_collection_add,
       collection_query = collection_query_nn stub_metric,
       embedding_model = ''text-embedding-3-small'',
       chat_model = ''gpt-4o-mini'' \<rparr>"

definition nn_world :: "index_entry list \<Rightarrow> (index_entry list, nat \<times> nat) world" where
  "nn_world entries = \<lparr> collection = entries, openai = (0, 0), logger = [] \<rparr>"

definition echo_store_core :: "index_entry list CoreRAG" where
  "echo_store_core = stub_core\<lparr>llm_chat := (\<lambda>prompt m w. (Inr prompt, w))\<rparr>"

definition nearest_results :: "search_result list" where
  "nearest_results =
     [\<lparr> sr_text = ''beta'', sr_metadata = [], sr_distance = 1, sr_id = ''b'' \<rparr>,
      \<lparr> sr_text = ''gamma'', sr_metadata = [], sr_distance = 1, sr_id = ''c'' \<rparr>,
      \<lparr> sr_text = ''alpha'', sr_metadata = [], sr_distance = 4, sr_id = ''a'' \<rparr>]"

section \<open>Chunk metadata\<close>

lemma map_of_dict_set: "map_of (dict_set d k v) = (map_of d)(k \<mapsto> v)"
  by (simp add: dict_set_def update_conv')

lemma chunk_doc_chunk_id: "metadata_get ''chunk_id'' (chunk_doc m n i c) = Some (PInt (int i))"
  by (simp add: metadata_get_def chunk_doc_def map_of_dict_set)

lemma chunk_doc_chunk_count:
  "metadata_get ''chunk_count'' (chunk_doc m n i c) = Some (PInt (int n))"
  by (simp add: metadata_get_def chunk_doc_def map_of_dict_set)

lemma map_enumerate_fst:
  "map (\<lambda>(i, c). f i) (enumerate k cs) = map f [k..<k + length cs]"
proof -
  have "map f [k..<k + length cs] = map f (map fst (enumerate k cs))"
    by simp
  also have "\<dots> = map (\<lambda>(i, c). f i) (enumerate k cs)"
    by (simp only: map_map comp_def split_def)
  finally show ?thesis by simp
qed

lemma chunk_text_texts:
  "map doc_text (chunk_text self text md) = map Some (text_splitter self text)"
proof -
  have "map (doc_text \<circ> (\<lambda>(i, c). chunk_doc m n i c)) (enumerate k cs) = map Some cs"
    for m n k and cs :: "string list"
    by (induction cs arbitrary: k) (simp_all add: chunk_doc_def)
  then show ?thesis by (simp add: chunk_text_def Let_def)
qed

lemma DocProcessor_init_raises:
  "DocProcessor_init new_splitter (Some chunk_size) (Some chunk_overlap) = Inl e
     \<longleftrightarrow> new_splitter chunk_size chunk_overlap = Inl e"
  by (simp add: DocProcessor_init_def split: sum.splits)

lemma DocumentProcessor_chunk_text_eq:
  "DocumentProcessor_chunk_text self text md = chunk_text self text md"
  by (simp add: DocumentProcessor_chunk_text_def chunk_text_def)

text \<open>
  Claim C5. For a text that the splitter cuts into \<open>n\<close> chunks, \<^verbatim>\<open>chunk_text\<close> (of
  either processor class) returns \<open>n\<close> documents; the metadata of the document at
  position \<open>i\<close> holds \<^verbatim>\<open>chunk_id = i\<close> and \<^verbatim>\<open>chunk_count = n\<close>, whatever the caller's
  metadata held under these keys. So the indices of one call are exactly
  \<open>0, 1, \<dots>, n - 1\<close> in order: contiguous, without duplicates or gaps.
\<close>

theorem chunk_text_index_range:
  "length (chunk_text self text md) = length (text_splitter self text)
    \<and> map (metadata_get ''chunk_id'') (chunk_text self text md)
        = map (\<lambda>i. Some (PInt (int i))) [0..<length (text_splitter self text)]
    \<and> map (metadata_get ''chunk_count'') (chunk_text self text md)
        = replicate (length (text_splitter self text))
            (Some (PInt (int (length (text_splitter self text)))))
    \<and> distinct (map (metadata_get ''chunk_id'') (chunk_text self text md))
    \<and> DocumentProcessor_chunk_text self text md = chunk_text self text md"
proof -
  let ?cs = "text_splitter self text"
  define n where "n = (\<lambda>t. length (text_splitter self t))"
  let ?m = "case md of None \<Rightarrow> [] | Some m \<Rightarrow> m"
  have docs: "chunk_text self text md
      = map (\<lambda>(i, c). chunk_doc ?m (length ?cs) i c) (enumerate 0 ?cs)"
    by (simp add: chunk_text_def Let_def)
  have len: "length (chunk_text self text md) = n text"
    by (simp add: docs n_def)
  have "map (metadata_get ''chunk_id'') (chunk_text self text md)
      = map (\<lambda>(i, c). Some (PInt (int i))) (enumerate 0 ?cs)"
    by (simp add: docs chunk_doc_chunk_id split_def)
  then have ids: "map (metadata_get ''chunk_id'') (chunk_text self text md)
      = map (\<lambda>i. Some (PInt (int i))) [0..<n text]"
    by (simp add: map_enumerate_fst n_def)
  have "map (metadata_get ''chunk_count'') (chunk_text self text md)
      = map (\<lambda>(i, c). Some (PInt (int (length ?cs)))) (enumerate 0 ?cs)"
    by (simp add: docs chunk_doc_chunk_count split_def)
  then have cnt: "map (metadata_get ''chunk_count'') (chunk_text self text md)
      = replicate (n text) (Some (PInt (int (n text))))"
    by (simp add: map_enumerate_fst n_def map_replicate_const)
  have "inj_on (\<lambda>i. Some (PInt (int i))) (set [0..<n text])"
    by (simp add: inj_on_def)
  then have dist: "distinct (map (metadata_get ''chunk_id'') (chunk_text self text md))"
    by (simp add: ids distinct_map)
  show ?thesis
    using len ids cnt dist DocumentProcessor_chunk_text_eq [of self _ md]
    by (simp add: n_def)
qed

section \<open>Adding documents\<close>

lemmas stub_defs = stub_rag_def stub_world_def stub_embeddings_create_def
  stub_chat_completions_create_def stub_collection_add_def stub_collection_query_def

lemma log_and_raise_collection [simp]:
  "collection (snd (log_and_raise msg e s)) = collection s"
  by (simp add: log_and_raise_def)

lemma log_and_raise_fst [simp]: "fst (log_and_raise msg e s) = Inl e"
  by (simp add: log_and_raise_def)

lemma create_embedding_collection:
  "collection (snd (create_embedding self t s)) = collection s"
  by (simp add: create_embedding_def split: prod.splits sum.splits)

lemma add_documents_loop_collection:
  "collection (snd (add_documents_loop self i docs acc s)) = collection s"
proof (induction docs arbitrary: i acc s)
  case Nil
  then show ?case by simp
next
  case (Cons doc rest)
  show ?case
  proof (cases "doc_text doc")
    case None
    then show ?thesis by simp
  next
    case (Some t)
    show ?thesis
    proof (cases "create_embedding self t s")
      case (Pair r s')
      have c: "collection s' = collection s"
        using create_embedding_collection [of self t s] Pair by simp
      show ?thesis
        using Some Pair c Cons.IH by (cases r) (simp_all add: Let_def)
    qed
  qed
qed

lemma add_documents_loop_fails:
  "embedding_fails self docs s \<Longrightarrow> \<exists>e. fst (add_documents_loop self i docs acc s) = Inl e"
proof (induction docs arbitrary: i acc s)
  case Nil
  then show ?case by simp
next
  case (Cons doc rest)
  from Cons.prems obtain t where t: "doc_text doc = Some t"
    by (cases "doc_text doc") simp_all
  show ?case
  proof (cases "create_embedding self t s")
    case (Pair r s')
    show ?thesis
    proof (cases r)
      case (Inl e)
      then show ?thesis using t Pair by (simp add: Let_def)
    next
      case (Inr emb)
      then have "embedding_fails self rest s'"
        using Cons.prems t Pair by simp
      from Cons.IH [OF this] show ?thesis
        using t Pair Inr by (simp add: Let_def)
    qed
  qed
qed

text \<open>
  Claim C9. If a \<^verbatim>\<open>create_embedding\<close> call raises for some document while
  \<^verbatim>\<open>SimpleRAG.add_documents\<close> runs, the call ends in an exception and the collection is
  the one it started with: every embedding is computed inside the loop, and
  \<^verbatim>\<open>collection.add\<close> is only reached after the loop, so nothing of the batch is
  persisted.
\<close>

theorem add_documents_all_or_nothing:
  assumes "embedding_fails self docs s"
  shows "(\<exists>e. fst (add_documents self docs s) = Inl e)
    \<and> collection (snd (add_documents self docs s)) = collection s"
proof -
  obtain r s' where loop: "add_documents_loop self 0 docs empty_request s = (r, s')"
    by (cases "add_documents_loop self 0 docs empty_request s")
  from add_documents_loop_fails [OF assms, of 0 empty_request] loop
  obtain e where e: "r = Inl e" by auto
  have "collection s' = collection s"
    using add_documents_loop_collection [of self 0 docs empty_request s] loop by simp
  then show ?thesis
    using loop e by (simp add: add_documents_def)
qed

theorem add_documents_all_or_nothing_witness:
  "embedding_fails stub_rag (stub_docs @ [bad_doc]) stub_world
   \<and> fst (add_documents stub_rag (stub_docs @ [bad_doc]) stub_world)
       = Inl (External ''embedding failed'')
   \<and> collection (snd (add_documents stub_rag (stub_docs @ [bad_doc]) stub_world))
       = collection stub_world"
proof -
  have h: "embedding_fails stub_rag (stub_docs @ [bad_doc]) stub_world"
    by (simp add: stub_defs stub_docs_def bad_doc_def create_embedding_def py_index_def
        log_and_raise_def)
  have e: "fst (add_documents stub_rag (stub_docs @ [bad_doc]) stub_world)
       = Inl (External ''embedding failed'')"
    by (simp add: stub_defs stub_docs_def bad_doc_def create_embedding_def py_index_def
        log_and_raise_def add_documents_def empty_request_def Let_def)
  from add_documents_all_or_nothing [OF h] h e show ?thesis by simp
qed

lemma add_documents_loop_ids:
  "add_documents_loop self i docs acc s = (Inr req, s') \<Longrightarrow>
     ids req = ids acc @ map (\<lambda>(j, d). assigned_id j d) (enumerate i docs)
     \<and> map Some (documents req) = map Some (documents acc) @ map doc_text docs"
proof (induction docs arbitrary: i acc s)
  case Nil
  then show ?case by auto
next
  case (Cons doc rest)
  from Cons.prems obtain t where t: "doc_text doc = Some t"
    by (cases "doc_text doc") simp_all
  obtain r s1 where ce: "create_embedding self t s = (r, s1)"
    by (cases "create_embedding self t s")
  from Cons.prems t ce obtain emb where r: "r = Inr emb"
    by (cases r) (simp_all add: Let_def)
  let ?acc = "\<lparr> documents = documents acc @ [t], embeddings = embeddings acc @ [emb],
      metadatas = metadatas acc @ [case doc_metadata doc of None \<Rightarrow> [] | Some m \<Rightarrow> m],
      ids = ids acc @ [assigned_id i doc] \<rparr>"
  have "add_documents_loop self (Suc i) rest ?acc s1 = (Inr req, s')"
    using Cons.prems t ce r by (simp add: Let_def assigned_id_def)
  from Cons.IH [OF this] show ?case
    using t by simp
qed

text \<open>
  Claim C10. When \<^verbatim>\<open>SimpleRAG.add_documents\<close> succeeds, the collection it leaves is
  what the one \<^verbatim>\<open>collection.add\<close> call made of the starting collection, and the
  \<^verbatim>\<open>ids\<close> of that call are, position by position, the document's own \<^verbatim>\<open>'id'\<close>
  where it has one and \<^verbatim>\<open>"doc_" + str(i)\<close> for its zero-based index \<open>i\<close> where it
  has none; the texts are handed over in the same order.
\<close>

theorem add_documents_ids:
  assumes "add_documents self docs s = (Inr (), s')"
  shows "\<exists>req. ids req = map (\<lambda>(i, d). assigned_id i d) (enumerate 0 docs)
    \<and> map Some (documents req) = map doc_text docs
    \<and> collection_add self req (collection s) = (Inr (), collection s')"
proof -
  obtain r s1 where loop: "add_documents_loop self 0 docs empty_request s = (r, s1)"
    by (cases "add_documents_loop self 0 docs empty_request s")
  from assms loop obtain req where r: "r = Inr req"
    by (cases r) (simp_all add: add_documents_def log_and_raise_def)
  have c: "collection s1 = collection s"
    using add_documents_loop_collection [of self 0 docs empty_request s] loop by simp
  have "add_to_collection self (length docs) req s1 = (Inr (), s')"
    using assms loop r by (simp add: add_documents_def)
  then have "collection_add self req (collection s) = (Inr (), collection s')"
    using c by (auto simp: add_to_collection_def log_and_raise_def split: prod.splits sum.splits)
  moreover have "ids req = map (\<lambda>(i, d). assigned_id i d) (enumerate 0 docs)"
    "map Some (documents req) = map doc_text docs"
    using add_documents_loop_ids [of self 0 docs empty_request s req s1] loop r
    by (simp_all add: empty_request_def)
  ultimately show ?thesis by blast
qed


theorem add_documents_ids_witness:
  "add_documents stub_rag stub_docs stub_world = (Inr (), stub_world_after)
   \<and> (\<exists>req. ids req = [''doc_0'', ''given'', ''doc_2'']
         \<and> collection_add stub_rag req (collection stub_world)
             = (Inr (), collection stub_world_after))"
proof -
  have h: "add_documents stub_rag stub_docs stub_world = (Inr (), stub_world_after)"
    by (simp add: stub_defs stub_docs_def create_embedding_def py_index_def
        add_documents_def add_to_collection_def empty_request_def Let_def
        stub_world_after_def)
  have ids: "map (\<lambda>(i, d). assigned_id i d) (enumerate 0 stub_docs)
      = [''doc_0'', ''given'', ''doc_2'']"
    by (simp add: stub_docs_def assigned_id_def)
  from add_documents_ids [OF h] h ids show ?thesis by auto
qed

section \<open>Searching\<close>

lemmas core_defs = stub_core_def stub_metric_def stub_embed_def stub_entries_def

lemma VectorStore_search_result:
  assumes "embed_fn m q = Inr v"
  shows "VectorStore_search metric embed_fn q k m entries
    = (Inr (take (nat k) (sort_key sr_distance (map (result_of metric v) entries))), entries)"
  using assms by (simp add: VectorStore_search_def)

lemma sorted_take_sort_key:
  "sorted (map f (take n (sort_key f xs)))"
proof -
  have "sorted (take n (map f (sort_key f xs)))"
    by (rule sorted_wrt_take) (rule sorted_sort_key)
  then show ?thesis by (simp add: take_map)
qed

lemma mset_take_subset: "mset (take n xs) \<subseteq># mset xs"
proof -
  have "mset xs = mset (take n xs) + mset (drop n xs)"
    by (metis append_take_drop_id mset_append)
  then show ?thesis by simp
qed

text \<open>
  \<^verbatim>\<open>SimpleRAG.search_documents\<close> turns the first row of the backend's answer into
  result dictionaries, position by position: length and order of its result are those
  of that row.
\<close>

lemma cell_row: "i < length row \<Longrightarrow> cell (row # rows) i = Inr (row ! i)"
  by (simp add: cell_def py_index_def)

lemma format_results_aligned:
  assumes "r_documents results = ds # dss" "r_metadatas results = ms # mss"
    "r_distances results = xs # xss" "r_ids results = ks # kss"
    and "\<forall>i \<in> set is. i < length ds \<and> i < length ms \<and> i < length xs \<and> i < length ks"
  shows "format_results results is
    = Inr (map (\<lambda>i. \<lparr> sr_text = ds ! i, sr_metadata = ms ! i, sr_distance = xs ! i,
                        sr_id = ks ! i \<rparr>) is)"
  using assms(5)
proof (induction "is")
  case Nil
  then show ?case by simp
next
  case (Cons i "is")
  then show ?case by (simp add: assms(1-4) cell_row)
qed

lemma search_documents_forwards:
  assumes "create_embedding self q s = (Inr v, s1)"
    and "collection_query self [v] k (collection s1) = (Inr results, c')"
    and "r_documents results = ds # dss" "r_metadatas results = ms # mss"
    "r_distances results = xs # xss" "r_ids results = ks # kss"
    and "length ms = length ds" "length xs = length ds" "length ks = length ds"
  shows "\<exists>rs. search_documents self q k s = (Inr rs, s1\<lparr>collection := c'\<rparr>)
    \<and> map sr_text rs = ds \<and> map sr_distance rs = xs \<and> map sr_id rs = ks
    \<and> map sr_metadata rs = ms"
proof -
  let ?rs = "map (\<lambda>i. \<lparr> sr_text = ds ! i, sr_metadata = ms ! i, sr_distance = xs ! i,
                        sr_id = ks ! i \<rparr>) [0..<length ds]"
  have fr: "format_results results [0..<length ds] = Inr ?rs"
    by (rule format_results_aligned [OF assms(3-6)]) (simp add: assms(7-9))
  have run: "search_documents self q k s = (Inr ?rs, s1\<lparr>collection := c'\<rparr>)"
    using assms(1,2,3) fr by (simp add: search_documents_def py_index_def)
  have "map sr_text ?rs = ds" "map sr_distance ?rs = xs" "map sr_id ?rs = ks"
    "map sr_metadata ?rs = ms"
    using assms(7-9) map_nth [of ds] map_nth [of xs] map_nth [of ks] map_nth [of ms]
    by (simp_all add: comp_def)
  with run show ?thesis by blast
qed

lemma format_results_rows:
  assumes "r_documents results = map sr_text best # dss"
    "r_metadatas results = map sr_metadata best # mss"
    "r_distances results = map sr_distance best # xss"
    "r_ids results = map sr_id best # kss"
  shows "format_results results [0..<length best] = Inr best"
proof -
  have "format_results results [0..<length best]
      = Inr (map (\<lambda>i. \<lparr> sr_text = map sr_text best ! i, sr_metadata = map sr_metadata best ! i,
                          sr_distance = map sr_distance best ! i, sr_id = map sr_id best ! i \<rparr>)
               [0..<length best])"
    by (rule format_results_aligned [OF assms]) simp
  also have "map (\<lambda>i. \<lparr> sr_text = map sr_text best ! i, sr_metadata = map sr_metadata best ! i,
                          sr_distance = map sr_distance best ! i, sr_id = map sr_id best ! i \<rparr>)
               [0..<length best] = best"
    by (rule nth_equalityI) simp_all
  finally show ?thesis .
qed

lemma search_documents_nn:
  assumes "collection_query self = collection_query_nn metric"
    and "embeddings_create self (embedding_model self) q (openai s) = (Inr (v # vs), o1)"
  shows "search_documents self q k s
    = (Inr (take (nat k) (sort_key sr_distance (map (result_of metric v) (collection s)))),
       s\<lparr>openai := o1\<rparr>)"
proof -
  let ?best = "take (nat k) (sort_key sr_distance (map (result_of metric v) (collection s)))"
  let ?results = "\<lparr> r_documents = [map sr_text ?best], r_metadatas = [map sr_metadata ?best],
      r_distances = [map sr_distance ?best], r_ids = [map sr_id ?best] \<rparr>"
  have ce: "create_embedding self q s = (Inr v, s\<lparr>openai := o1\<rparr>)"
    using assms(2) by (simp add: create_embedding_def py_index_def)
  have cq: "collection_query self [v] k (collection (s\<lparr>openai := o1\<rparr>))
      = (Inr ?results, collection s)"
    by (simp add: assms(1) collection_query_nn_def)
  have fr: "format_results ?results [0..<length ?best] = Inr ?best"
    by (rule format_results_rows) simp_all
  show ?thesis
    using ce cq fr by (simp add: search_documents_def py_index_def)
qed


lemma take_sort_key_props:
  "length (take n (sort_key f xs)) \<le> n
   \<and> sorted (map f (take n (sort_key f xs)))
   \<and> length (take n (sort_key f xs)) = min n (length xs)
   \<and> mset (take n (sort_key f xs)) \<subseteq># mset xs
   \<and> (length xs < n \<longrightarrow> mset (take n (sort_key f xs)) = mset xs)
   \<and> (xs = [] \<longrightarrow> take n (sort_key f xs) = [])"
proof -
  have "mset (take n (sort_key f xs)) \<subseteq># mset (sort_key f xs)"
    by (rule mset_take_subset)
  then have "mset (take n (sort_key f xs)) \<subseteq># mset xs"
    by simp
  then show ?thesis
    using sorted_take_sort_key [of f n xs] by simp
qed

lemma nearest_results_sorted:
  "sort_key sr_distance (map (result_of stub_metric [5]) stub_entries) = nearest_results"
  by (simp add: stub_metric_def stub_entries_def result_of_def nearest_results_def)

lemma nn_search_example:
  "search_documents nn_rag ''query'' k (nn_world stub_entries)
     = (Inr (take (nat k) nearest_results), (nn_world stub_entries)\<lparr>openai := (1, 0)\<rparr>)"
proof -
  have h1: "collection_query nn_rag = collection_query_nn stub_metric"
    by (simp add: nn_rag_def)
  have h2: "embeddings_create nn_rag (embedding_model nn_rag) ''query''
      (openai (nn_world stub_entries)) = (Inr ([5] # []), (1, 0))"
    by (simp add: nn_rag_def nn_world_def stub_embeddings_create_def)
  show ?thesis
    using search_documents_nn [OF h1 h2, of k] nearest_results_sorted
    by (simp add: nn_world_def)
qed

lemma stub_search_example:
  "map sr_id (case fst (CoreRAG_search_documents stub_core ''query'' 2 stub_entries) of Inr rs \<Rightarrow> rs | Inl e \<Rightarrow> [])
     = [''b'', ''c'']"
  by (simp add: core_defs CoreRAG_search_documents_def VectorStore_search_def result_of_def)


text \<open>
  Claim C3. On the collection backend and on the store as the specification describes
  them, for every collection, every query whose embedding succeeds and every \<open>k > 0\<close>,
  \<^verbatim>\<open>search_documents\<close> of either pipeline returns a sequence of at most \<open>k\<close> results
  in non-decreasing distance and leaves the collection as it was. It returns \<open>min k n\<close>
  of the \<open>n\<close> stored entries, each of them a stored entry: a collection of fewer than \<open>k\<close>
  entries is returned whole, and an empty collection gives the empty sequence, not an
  error.
\<close>

theorem search_documents_top_k:
  assumes "collection_query self = collection_query_nn metric"
    and "embeddings_create self (embedding_model self) q (openai s) = (Inr (v # vs), o1)"
    and "vector_store_search core = VectorStore_search metric embed_fn"
    and "embed_fn (core_embedding_model core) q = Inr u"
    and "0 < k"
  shows "(\<exists>rs. search_documents self q k s = (Inr rs, s\<lparr>openai := o1\<rparr>)
        \<and> length rs \<le> nat k
        \<and> sorted (map sr_distance rs)
        \<and> length rs = min (nat k) (length (collection s))
        \<and> mset rs \<subseteq># mset (map (result_of metric v) (collection s))
        \<and> (length (collection s) < nat k \<longrightarrow>
             mset rs = mset (map (result_of metric v) (collection s)))
        \<and> (collection s = [] \<longrightarrow> rs = []))
    \<and> (\<exists>rs. CoreRAG_search_documents core q k entries = (Inr rs, entries)
        \<and> length rs \<le> nat k
        \<and> sorted (map sr_distance rs)
        \<and> length rs = min (nat k) (length entries)
        \<and> mset rs \<subseteq># mset (map (result_of metric u) entries)
        \<and> (length entries < nat k \<longrightarrow> mset rs = mset (map (result_of metric u) entries))
        \<and> (entries = [] \<longrightarrow> rs = []))"
proof -
  let ?rs = "take (nat k) (sort_key sr_distance (map (result_of metric v) (collection s)))"
  let ?cs = "take (nat k) (sort_key sr_distance (map (result_of metric u) entries))"
  have simple: "search_documents self q k s = (Inr ?rs, s\<lparr>openai := o1\<rparr>)"
    by (rule search_documents_nn [OF assms(1,2)])
  have core: "CoreRAG_search_documents core q k entries = (Inr ?cs, entries)"
    using assms(3,4) by (simp add: CoreRAG_search_documents_def VectorStore_search_result)
  have p1: "length ?rs \<le> nat k \<and> sorted (map sr_distance ?rs)
      \<and> length ?rs = min (nat k) (length (collection s))
      \<and> mset ?rs \<subseteq># mset (map (result_of metric v) (collection s))
      \<and> (length (collection s) < nat k \<longrightarrow>
           mset ?rs = mset (map (result_of metric v) (collection s)))
      \<and> (collection s = [] \<longrightarrow> ?rs = [])"
    using take_sort_key_props [of "nat k" sr_distance "map (result_of metric v) (collection s)"]
    by simp
  have p2: "length ?cs \<le> nat k \<and> sorted (map sr_distance ?cs)
      \<and> length ?cs = min (nat k) (length entries)
      \<and> mset ?cs \<subseteq># mset (map (result_of metric u) entries)
      \<and> (length entries < nat k \<longrightarrow> mset ?cs = mset (map (result_of metric u) entries))
      \<and> (entries = [] \<longrightarrow> ?cs = [])"
    using take_sort_key_props [of "nat k" sr_distance "map (result_of metric u) entries"]
    by simp
  from simple p1 have a: "\<exists>rs. search_documents self q k s = (Inr rs, s\<lparr>openai := o1\<rparr>)
        \<and> length rs \<le> nat k
        \<and> sorted (map sr_distance rs)
        \<and> length rs = min (nat k) (length (collection s))
        \<and> mset rs \<subseteq># mset (map (result_of metric v) (collection s))
        \<and> (length (collection s) < nat k \<longrightarrow>
             mset rs = mset (map (result_of metric v) (collection s)))
        \<and> (collection s = [] \<longrightarrow> rs = [])"
    by (intro exI [of _ ?rs]) blast
  from core p2 have b: "\<exists>rs. CoreRAG_search_documents core q k entries = (Inr rs, entries)
        \<and> length rs \<le> nat k
        \<and> sorted (map sr_distance rs)
        \<and> length rs = min (nat k) (length entries)
        \<and> mset rs \<subseteq># mset (map (result_of metric u) entries)
        \<and> (length entries < nat k \<longrightarrow> mset rs = mset (map (result_of metric u) entries))
        \<and> (entries = [] \<longrightarrow> rs = [])"
    by (intro exI [of _ ?cs]) blast
  from a b show ?thesis by (rule conjI)
qed

theorem search_documents_top_k_witness:
  "collection_query nn_rag = collection_query_nn stub_metric
   \<and> embeddings_create nn_rag (embedding_model nn_rag) ''query'' (openai (nn_world stub_entries))
       = (Inr ([5] # []), (1, 0))
   \<and> vector_store_search stub_core = VectorStore_search stub_metric stub_embed
   \<and> stub_embed (core_embedding_model stub_core) ''query'' = Inr [5]
   \<and> (0 :: int) < 2 \<and> (0 :: int) < 10 \<and> length stub_entries < nat 10
   \<and> (\<exists>rs. search_documents nn_rag ''query'' 2 (nn_world stub_entries)
           = (Inr rs, (nn_world stub_entries)\<lparr>openai := (1, 0)\<rparr>)
         \<and> length rs = 2 \<and> sorted (map sr_distance rs))
   \<and> (\<exists>rs. search_documents nn_rag ''query'' 10 (nn_world stub_entries)
           = (Inr rs, (nn_world stub_entries)\<lparr>openai := (1, 0)\<rparr>)
         \<and> length rs = 3 \<and> sorted (map sr_distance rs)
         \<and> mset rs = mset (map (result_of stub_metric [5]) stub_entries))
   \<and> search_documents nn_rag ''query'' 10 (nn_world [])
       = (Inr [], (nn_world [])\<lparr>openai := (1, 0)\<rparr>)
   \<and> (\<exists>rs. CoreRAG_search_documents stub_core ''query'' 2 stub_entries = (Inr rs, stub_entries)
         \<and> length rs = 2 \<and> sorted (map sr_distance rs))
   \<and> (\<exists>rs. CoreRAG_search_documents stub_core ''query'' 10 stub_entries = (Inr rs, stub_entries)
         \<and> length rs = 3 \<and> sorted (map sr_distance rs)
         \<and> mset rs = mset (map (result_of stub_metric [5]) stub_entries))
   \<and> CoreRAG_search_documents stub_core ''query'' 10 [] = (Inr [], [])"
proof -
  have h1: "collection_query nn_rag = collection_query_nn stub_metric"
    by (simp add: nn_rag_def)
  have h2: "embeddings_create nn_rag (embedding_model nn_rag) ''query'' (openai (nn_world es))
       = (Inr ([5] # []), (1, 0))" for es
    by (simp add: nn_rag_def nn_world_def stub_embeddings_create_def)
  have h3: "vector_store_search stub_core = VectorStore_search stub_metric stub_embed"
    by (simp add: stub_core_def)
  have h4: "stub_embed (core_embedding_model stub_core) ''query'' = Inr [5]"
    by (simp add: stub_core_def stub_embed_def)
  have k2: "(0 :: int) < 2" and k10: "(0 :: int) < 10" by simp_all
  have n: "length stub_entries = 3" by (simp add: stub_entries_def)
  have c: "collection (nn_world es) = es" for es
    by (simp add: nn_world_def)
  note two = search_documents_top_k [OF h1 h2 h3 h4 k2, of stub_entries stub_entries]
  note ten = search_documents_top_k [OF h1 h2 h3 h4 k10, of stub_entries stub_entries]
  note none = search_documents_top_k [OF h1 h2 h3 h4 k10, of "[]" "[]"]
  have a: "\<exists>rs. search_documents nn_rag ''query'' 2 (nn_world stub_entries)
           = (Inr rs, (nn_world stub_entries)\<lparr>openai := (1, 0)\<rparr>)
         \<and> length rs = 2 \<and> sorted (map sr_distance rs)"
    using two [THEN conjunct1] n c by auto
  have b: "\<exists>rs. search_documents nn_rag ''query'' 10 (nn_world stub_entries)
           = (Inr rs, (nn_world stub_entries)\<lparr>openai := (1, 0)\<rparr>)
         \<and> length rs = 3 \<and> sorted (map sr_distance rs)
         \<and> mset rs = mset (map (result_of stub_metric [5]) stub_entries)"
    using ten [THEN conjunct1] n c by auto
  have d: "search_documents nn_rag ''query'' 10 (nn_world [])
       = (Inr [], (nn_world [])\<lparr>openai := (1, 0)\<rparr>)"
    using none [THEN conjunct1] c by auto
  have e: "\<exists>rs. CoreRAG_search_documents stub_core ''query'' 2 stub_entries
        = (Inr rs, stub_entries) \<and> length rs = 2 \<and> sorted (map sr_distance rs)"
    using two [THEN conjunct2] n by auto
  have f: "\<exists>rs. CoreRAG_search_documents stub_core ''query'' 10 stub_entries
        = (Inr rs, stub_entries) \<and> length rs = 3 \<and> sorted (map sr_distance rs)
         \<and> mset rs = mset (map (result_of stub_metric [5]) stub_entries)"
    using ten [THEN conjunct2] n by auto
  have g: "CoreRAG_search_documents stub_core ''query'' 10 [] = (Inr [], [])"
    using none [THEN conjunct2] by auto
  from h1 h2 [of stub_entries] h3 h4 n a b d e f g show ?thesis by simp
qed


section \<open>Answering\<close>

lemmas rag_defs = query_def search_documents_def create_embedding_def generate_response_def
  log_and_raise_def py_index_def cell_def chat_request_of_def

lemmas core_rag_defs = CoreRAG_query_def CoreRAG_search_documents_def
  CoreRAG_generate_response_def VectorStore_search_def result_of_def

text \<open>
  Claim C4. When the search and the generation collaborator both succeed,
  \<^verbatim>\<open>query(question, k)\<close> of either pipeline returns the record whose \<^verbatim>\<open>question\<close> is
  the input, whose \<^verbatim>\<open>sources\<close> is the sequence the search returned, in its order, and
  whose \<^verbatim>\<open>answer\<close> is what the collaborator made of the prompt that holds, between
  \<open>Context:\<close> and \<open>Question:\<close>, the texts of these results in their order, joined by
  a blank line. Without \<open>k\<close> the call is the one with \<open>k = 3\<close>.
\<close>

theorem query_answer_record:
  assumes "search_documents self q k s = (Inr docs, s1)"
    and "chat_completions_create self
           \<lparr> model = chat_model self,
             messages =
               [\<lparr> role = ''system'',
                  content = ''You are a helpful assistant. Answer questions based on the provided context. If the context doesn't contain relevant information, say so clearly.'' \<rparr>,
                \<lparr> role = ''user'',
                  content =
                    ''Based on the following context, please answer the question.\<newline>\<newline>Context:\<newline>''
                    @ join ''\<newline>\<newline>'' (map sr_text docs)
                    @ ''\<newline>\<newline>Question: '' @ q @ ''\<newline>\<newline>Answer:'' \<rparr>],
             temperature = 7 / 10,
             max_tokens = 500 \<rparr>
           (openai s1) = (Inr (a # others), o2)"
    and "CoreRAG_search_documents core q k w = (Inr cdocs, w1)"
    and "llm_chat core
           (''Based on the following context, please answer the question.\<newline>\<newline>Context:\<newline>''
            @ join ''\<newline>\<newline>'' (map sr_text cdocs)
            @ ''\<newline>\<newline>Question: '' @ q @ ''\<newline>\<newline>Answer:'')
           (core_chat_model core) w1 = (Inr ca, w2)"
  shows "query self q k s
        = (Inr \<lparr> question = q, answer = a, sources = docs \<rparr>, s1\<lparr>openai := o2\<rparr>)
    \<and> CoreRAG_query core q k w
        = (Inr \<lparr> question = q, answer = ca, sources = cdocs \<rparr>, w2)
    \<and> query_default self q s = query self q 3 s
    \<and> CoreRAG_query_default core q w = CoreRAG_query core q 3 w"
proof -
  have gr: "generate_response self q docs s1 = (Inr a, s1\<lparr>openai := o2\<rparr>)"
    using assms(2)
    by (simp add: generate_response_def py_index_def chat_request_of_def build_prompt_def
        context_of_def system_instruction_def)
  have simple: "query self q k s
      = (Inr \<lparr> question = q, answer = a, sources = docs \<rparr>, s1\<lparr>openai := o2\<rparr>)"
    using assms(1) gr by (simp add: query_def)
  have cgr: "CoreRAG_generate_response core q cdocs w1 = (Inr ca, w2)"
    using assms(4) by (simp add: CoreRAG_generate_response_def context_of_def build_prompt_def)
  have core: "CoreRAG_query core q k w
      = (Inr \<lparr> question = q, answer = ca, sources = cdocs \<rparr>, w2)"
    using assms(3) cgr by (simp add: CoreRAG_query_def)
  show ?thesis
    using simple core by (simp add: query_default_def CoreRAG_query_default_def)
qed

theorem query_answer_record_witness:
  "query nn_rag ''query'' 3 (nn_world stub_entries)
     = (Inr \<lparr> question = ''query'',
              answer = ''Based on the following context, please answer the question.\<newline>\<newline>Context:\<newline>beta\<newline>\<newline>gamma\<newline>\<newline>alpha\<newline>\<newline>Question: query\<newline>\<newline>Answer:'',
              sources = nearest_results \<rparr>,
        (nn_world stub_entries)\<lparr>openai := (1, 1)\<rparr>)
   \<and> CoreRAG_query echo_store_core ''query'' 3 stub_entries
     = (Inr \<lparr> question = ''query'',
              answer = ''Based on the following context, please answer the question.\<newline>\<newline>Context:\<newline>beta\<newline>\<newline>gamma\<newline>\<newline>alpha\<newline>\<newline>Question: query\<newline>\<newline>Answer:'',
              sources = nearest_results \<rparr>,
        stub_entries)"
proof -
  let ?answer = "''Based on the following context, please answer the question.\<newline>\<newline>Context:\<newline>beta\<newline>\<newline>gamma\<newline>\<newline>alpha\<newline>\<newline>Question: query\<newline>\<newline>Answer:''"
  have texts: "map sr_text nearest_results = [''beta'', ''gamma'', ''alpha'']"
    by (simp add: nearest_results_def)
  have h1: "search_documents nn_rag ''query'' 3 (nn_world stub_entries)
      = (Inr nearest_results, (nn_world stub_entries)\<lparr>openai := (1, 0)\<rparr>)"
    using nn_search_example [of 3] by (simp add: nearest_results_def)
  have h2: "chat_completions_create nn_rag
           \<lparr> model = chat_model nn_rag,
             messages =
               [\<lparr> role = ''system'',
                  content = ''You are a helpful assistant. Answer questions based on the provided context. If the context doesn't contain relevant information, say so clearly.'' \<rparr>,
                \<lparr> role = ''user'',
                  content =
                    ''Based on the following context, please answer the question.\<newline>\<newline>Context:\<newline>''
                    @ join ''\<newline>\<newline>'' (map sr_text nearest_results)
                    @ ''\<newline>\<newline>Question: '' @ ''query'' @ ''\<newline>\<newline>Answer:'' \<rparr>],
             temperature = 7 / 10,
             max_tokens = 500 \<rparr>
           (openai ((nn_world stub_entries)\<lparr>openai := (1, 0)\<rparr>))
        = (Inr (?answer # []), (1, 1))"
    by (simp add: nn_rag_def echo_chat_completions_create_def texts)
  have h3: "CoreRAG_search_documents echo_store_core ''query'' 3 stub_entries
      = (Inr nearest_results, stub_entries)"
    using nearest_results_sorted
    by (simp add: CoreRAG_search_documents_def VectorStore_search_def echo_store_core_def
        stub_core_def stub_embed_def nearest_results_def)
  have h4: "llm_chat echo_store_core
           (''Based on the following context, please answer the question.\<newline>\<newline>Context:\<newline>''
            @ join ''\<newline>\<newline>'' (map sr_text nearest_results)
            @ ''\<newline>\<newline>Question: '' @ ''query'' @ ''\<newline>\<newline>Answer:'')
           (core_chat_model echo_store_core) stub_entries = (Inr ?answer, stub_entries)"
    by (simp add: echo_store_core_def stub_core_def texts)
  from query_answer_record [OF h1 h2 h3 h4] show ?thesis
    by (simp add: nn_world_def)
qed


text \<open>
  The prompt of claim C6 at the question \<open>why\<close> and one retrieved text \<open>ctx\<close>. What
  \<^verbatim>\<open>CoreRAG\<close> hands its client ends, after the question, with \<open>Answer:\<close> and nothing
  else: no instruction follows the question. In \<^verbatim>\<open>SimpleRAG\<close> the instruction to
  answer from the context, and to say so when the context lacks the information, is a
  system message of its own, before the prompt.
\<close>

theorem prompt_structure_counterexample:
  "CoreRAG_generate_response echo_core ''why'' [ctx_doc] ()
     = (Inr (''Based on the following context, please answer the question.\<newline>\<newline>Context:\<newline>ctx\<newline>\<newline>Question: ''
             @ ''why'' @ ''\<newline>\<newline>Answer:''), ())
   \<and> map content (messages (chat_request_of stub_rag ''why'' [ctx_doc]))
     = [''You are a helpful assistant. Answer questions based on the provided context. If the context doesn't contain relevant information, say so clearly.'',
        ''Based on the following context, please answer the question.\<newline>\<newline>Context:\<newline>ctx\<newline>\<newline>Question: ''
          @ ''why'' @ ''\<newline>\<newline>Answer:'']"
  by (simp add: CoreRAG_generate_response_def echo_core_def ctx_doc_def build_prompt_def
      context_of_def chat_request_of_def system_instruction_def)

text \<open>
  Claim C6, as the code has it. For every question and every retrieved context, the
  prompt handed to the generation collaborator is the sentence
  \<open>Based on the following context, please answer the question.\<close>, then \<open>Context:\<close>
  and the retrieved texts joined by blank lines, then \<open>Question:\<close> and the literal
  question, then the closing line \<open>Answer:\<close>. \<^verbatim>\<open>CoreRAG\<close> passes this prompt to its
  client; \<^verbatim>\<open>SimpleRAG\<close> sends it as the user message after a system message that
  holds the instruction to answer from the provided context and to say so clearly when
  the context does not contain the information, and returns the first choice of the
  answer to that request.
\<close>

theorem prompt_structure:
  "CoreRAG_generate_response core q docs w
     = llm_chat core
         (''Based on the following context, please answer the question.\<newline>\<newline>Context:\<newline>''
          @ join ''\<newline>\<newline>'' (map sr_text docs)
          @ ''\<newline>\<newline>Question: '' @ q @ ''\<newline>\<newline>Answer:'')
         (core_chat_model core) w
   \<and> messages (chat_request_of self q docs)
     = [\<lparr> role = ''system'',
          content = ''You are a helpful assistant. Answer questions based on the provided context. If the context doesn't contain relevant information, say so clearly.'' \<rparr>,
        \<lparr> role = ''user'',
          content =
            ''Based on the following context, please answer the question.\<newline>\<newline>Context:\<newline>''
            @ join ''\<newline>\<newline>'' (map sr_text docs)
            @ ''\<newline>\<newline>Question: '' @ q @ ''\<newline>\<newline>Answer:'' \<rparr>]
   \<and> fst (generate_response self q docs s)
     = (case fst (chat_completions_create self (chat_request_of self q docs) (openai s)) of
          Inl e \<Rightarrow> Inl e
        | Inr choices \<Rightarrow> py_index choices 0)"
proof -
  have core: "CoreRAG_generate_response core q docs w
     = llm_chat core
         (''Based on the following context, please answer the question.\<newline>\<newline>Context:\<newline>''
          @ join ''\<newline>\<newline>'' (map sr_text docs)
          @ ''\<newline>\<newline>Question: '' @ q @ ''\<newline>\<newline>Answer:'')
         (core_chat_model core) w"
    by (simp add: CoreRAG_generate_response_def build_prompt_def context_of_def)
  have msgs: "messages (chat_request_of self q docs)
     = [\<lparr> role = ''system'',
          content = ''You are a helpful assistant. Answer questions based on the provided context. If the context doesn't contain relevant information, say so clearly.'' \<rparr>,
        \<lparr> role = ''user'',
          content =
            ''Based on the following context, please answer the question.\<newline>\<newline>Context:\<newline>''
            @ join ''\<newline>\<newline>'' (map sr_text docs)
            @ ''\<newline>\<newline>Question: '' @ q @ ''\<newline>\<newline>Answer:'' \<rparr>]"
    by (simp add: chat_request_of_def build_prompt_def context_of_def system_instruction_def)
  have resp: "fst (generate_response self q docs s)
     = (case fst (chat_completions_create self (chat_request_of self q docs) (openai s)) of
          Inl e \<Rightarrow> Inl e
        | Inr choices \<Rightarrow> py_index choices 0)"
    by (simp add: generate_response_def log_and_raise_def split: prod.splits sum.splits)
  from core msgs resp show ?thesis by simp
qed

lemma create_embedding_calls:
  "embedding_calls (snd (create_embedding (counted self) t s)) = Suc (embedding_calls s)
   \<and> chat_calls (snd (create_embedding (counted self) t s)) = chat_calls s
   \<and> collection_calls (snd (create_embedding (counted self) t s)) = collection_calls s"
  by (simp add: create_embedding_def counted_def log_and_raise_def embedding_calls_def
      chat_calls_def collection_calls_def split: prod.splits sum.splits)

lemma generate_response_calls:
  "embedding_calls (snd (generate_response (counted self) q docs s)) = embedding_calls s
   \<and> chat_calls (snd (generate_response (counted self) q docs s)) = Suc (chat_calls s)
   \<and> collection_calls (snd (generate_response (counted self) q docs s)) = collection_calls s"
  by (simp add: generate_response_def counted_def log_and_raise_def embedding_calls_def
      chat_calls_def collection_calls_def split: prod.splits sum.splits)

lemma search_documents_calls:
  "embedding_calls (snd (search_documents (counted self) q k s)) = Suc (embedding_calls s)
   \<and> chat_calls (snd (search_documents (counted self) q k s)) = chat_calls s
   \<and> collection_calls (snd (search_documents (counted self) q k s)) \<le> Suc (collection_calls s)"
proof -
  obtain r s1 where ce: "create_embedding (counted self) q s = (r, s1)"
    by (cases "create_embedding (counted self) q s")
  have s1: "embedding_calls s1 = Suc (embedding_calls s)" "chat_calls s1 = chat_calls s"
    "collection_calls s1 = collection_calls s"
    using create_embedding_calls [of self q s] ce by simp_all
  show ?thesis
  proof (cases r)
    case (Inl e)
    then show ?thesis
      using ce s1 by (simp add: search_documents_def log_and_raise_def embedding_calls_def
          chat_calls_def collection_calls_def)
  next
    case (Inr emb)
    then show ?thesis
      using ce s1
      by (auto simp: search_documents_def log_and_raise_def counted_def embedding_calls_def
          chat_calls_def collection_calls_def split: prod.splits sum.splits)
  qed
qed

lemma query_calls:
  "embedding_calls (snd (query (counted self) q k s)) = Suc (embedding_calls s)
   \<and> chat_calls (snd (query (counted self) q k s)) \<le> Suc (chat_calls s)
   \<and> collection_calls (snd (query (counted self) q k s)) \<le> Suc (collection_calls s)"
proof -
  obtain r s1 where sd: "search_documents (counted self) q k s = (r, s1)"
    by (cases "search_documents (counted self) q k s")
  have s1: "embedding_calls s1 = Suc (embedding_calls s)" "chat_calls s1 = chat_calls s"
    "collection_calls s1 \<le> Suc (collection_calls s)"
    using search_documents_calls [of self q k s] sd by simp_all
  show ?thesis
  proof (cases r)
    case (Inl e)
    then show ?thesis
      using sd s1 by (simp add: query_def log_and_raise_def embedding_calls_def
          chat_calls_def collection_calls_def)
  next
    case (Inr docs)
    obtain r2 s2 where gr: "generate_response (counted self) q docs s1 = (r2, s2)"
      by (cases "generate_response (counted self) q docs s1")
    have s2: "embedding_calls s2 = embedding_calls s1" "chat_calls s2 = Suc (chat_calls s1)"
      "collection_calls s2 = collection_calls s1"
      using generate_response_calls [of self q docs s1] gr by simp_all
    show ?thesis
      using sd Inr gr s1 s2
      by (cases r2) (simp_all add: query_def log_and_raise_def embedding_calls_def
          chat_calls_def collection_calls_def)
  qed
qed

lemma CoreRAG_query_calls:
  "fst (snd (snd (CoreRAG_query (counted_core core) q k (w, ns, nc)))) = Suc ns
   \<and> snd (snd (snd (CoreRAG_query (counted_core core) q k (w, ns, nc)))) \<le> Suc nc"
  by (simp add: CoreRAG_query_def CoreRAG_search_documents_def CoreRAG_generate_response_def
      counted_core_def split: prod.splits sum.splits)


text \<open>The counted object runs as the original does, counters aside.\<close>

lemma create_embedding_counted:
  "forget (create_embedding (counted self) t s) = create_embedding self t (uncounted s)"
  by (simp add: forget_def uncounted_def create_embedding_def counted_def log_and_raise_def
      split: prod.splits sum.splits)

lemma generate_response_counted:
  "forget (generate_response (counted self) q docs s)
     = generate_response self q docs (uncounted s)"
  by (simp add: forget_def uncounted_def generate_response_def counted_def log_and_raise_def
      chat_request_of_def split: prod.splits sum.splits)

lemma search_documents_counted:
  "forget (search_documents (counted self) q k s) = search_documents self q k (uncounted s)"
proof -
  obtain r s1 where ce: "create_embedding (counted self) q s = (r, s1)"
    by (cases "create_embedding (counted self) q s")
  then have ce': "create_embedding self q (uncounted s) = (r, uncounted s1)"
    using create_embedding_counted [of self q s] by (simp add: forget_def)
  show ?thesis
  proof (cases r)
    case (Inl e)
    then show ?thesis
      using ce ce' by (simp add: search_documents_def forget_def uncounted_def log_and_raise_def)
  next
    case (Inr v)
    then show ?thesis
      using ce ce'
      by (auto simp: search_documents_def forget_def uncounted_def log_and_raise_def
          counted_def split: prod.splits sum.splits)
  qed
qed

lemma query_counted:
  "forget (query (counted self) q k s) = query self q k (uncounted s)"
proof -
  obtain r s1 where sd: "search_documents (counted self) q k s = (r, s1)"
    by (cases "search_documents (counted self) q k s")
  then have sd': "search_documents self q k (uncounted s) = (r, uncounted s1)"
    using search_documents_counted [of self q k s] by (simp add: forget_def)
  show ?thesis
  proof (cases r)
    case (Inl e)
    then show ?thesis
      using sd sd' by (simp add: query_def forget_def uncounted_def log_and_raise_def)
  next
    case (Inr docs)
    obtain r2 s2 where gr: "generate_response (counted self) q docs s1 = (r2, s2)"
      by (cases "generate_response (counted self) q docs s1")
    then have gr': "generate_response self q docs (uncounted s1) = (r2, uncounted s2)"
      using generate_response_counted [of self q docs s1] by (simp add: forget_def)
    show ?thesis
      using sd sd' Inr gr gr'
      by (cases r2) (simp_all add: query_def forget_def uncounted_def log_and_raise_def)
  qed
qed

lemma CoreRAG_query_counted:
  "(case CoreRAG_query (counted_core core) q k (w, ns, nc) of (r, (w', c)) \<Rightarrow> (r, w'))
     = CoreRAG_query core q k w"
  by (simp add: CoreRAG_query_def CoreRAG_search_documents_def CoreRAG_generate_response_def
      counted_core_def split: prod.splits sum.splits)


text \<open>
  Claim C7. In \<^verbatim>\<open>query\<close> of either pipeline an exception of the search step, and an
  exception of the generation step after a successful search, is the outcome of the
  call: the same exception, no answer record and so none of the search results.
  \<^verbatim>\<open>SimpleRAG.query\<close> logs the exception before it re-raises it. Nothing is tried
  again: whatever the collaborators do, one call of \<^verbatim>\<open>query\<close> embeds once, queries the
  collection at most once and asks for a completion at most once, as the run with
  counted collaborators shows; that run is the original one, counters aside.
\<close>

theorem query_failure_propagates:
  "(search_documents self q k s = (Inl e, s1) \<longrightarrow>
      query self q k s
        = (Inl e, s1\<lparr>logger := logger s1 @ [ERROR (''Error in RAG query: '' @ exc_str e)]\<rparr>))
   \<and> (search_documents self q k s = (Inr docs, s1)
        \<and> generate_response self q docs s1 = (Inl e, s2) \<longrightarrow>
      query self q k s
        = (Inl e, s2\<lparr>logger := logger s2 @ [ERROR (''Error in RAG query: '' @ exc_str e)]\<rparr>))
   \<and> (CoreRAG_search_documents core q k w = (Inl e, w1) \<longrightarrow>
      CoreRAG_query core q k w = (Inl e, w1))
   \<and> (CoreRAG_search_documents core q k w = (Inr docs, w1)
        \<and> CoreRAG_generate_response core q docs w1 = (Inl e, w2) \<longrightarrow>
      CoreRAG_query core q k w = (Inl e, w2))
   \<and> embedding_calls (snd (query (counted self) q k cs)) = Suc (embedding_calls cs)
   \<and> collection_calls (snd (query (counted self) q k cs)) \<le> Suc (collection_calls cs)
   \<and> chat_calls (snd (query (counted self) q k cs)) \<le> Suc (chat_calls cs)
   \<and> fst (snd (snd (CoreRAG_query (counted_core core) q k (w, ns, nc)))) = Suc ns
   \<and> snd (snd (snd (CoreRAG_query (counted_core core) q k (w, ns, nc)))) \<le> Suc nc
   \<and> forget (query (counted self) q k cs) = query self q k (uncounted cs)
   \<and> (case CoreRAG_query (counted_core core) q k (w, ns, nc) of (r, (w', c)) \<Rightarrow> (r, w'))
       = CoreRAG_query core q k w"
proof -
  have a: "search_documents self q k s = (Inl e, s1) \<longrightarrow>
      query self q k s
        = (Inl e, s1\<lparr>logger := logger s1 @ [ERROR (''Error in RAG query: '' @ exc_str e)]\<rparr>)"
    by (simp add: query_def log_and_raise_def)
  have b: "search_documents self q k s = (Inr docs, s1)
        \<and> generate_response self q docs s1 = (Inl e, s2) \<longrightarrow>
      query self q k s
        = (Inl e, s2\<lparr>logger := logger s2 @ [ERROR (''Error in RAG query: '' @ exc_str e)]\<rparr>)"
    by (simp add: query_def log_and_raise_def)
  have c: "CoreRAG_search_documents core q k w = (Inl e, w1) \<longrightarrow>
      CoreRAG_query core q k w = (Inl e, w1)"
    by (simp add: CoreRAG_query_def)
  have d: "CoreRAG_search_documents core q k w = (Inr docs, w1)
        \<and> CoreRAG_generate_response core q docs w1 = (Inl e, w2) \<longrightarrow>
      CoreRAG_query core q k w = (Inl e, w2)"
    by (simp add: CoreRAG_query_def)
  show ?thesis
    using a b c d query_calls [of self q k cs] CoreRAG_query_calls [of core q k w ns nc]
      query_counted [of self q k cs] CoreRAG_query_counted [of core q k w ns nc]
    by blast
qed

lemma bad_search: "search_documents stub_rag ''bad'' 3 stub_world
    = (Inl (External ''embedding failed''),
       stub_world\<lparr>openai := (1, 0),
         logger := [ERROR ''Error creating embedding: embedding failed'',
                    ERROR ''Error searching documents: embedding failed'']\<rparr>)"
  by (simp add: rag_defs stub_defs)

lemma broken_search: "search_documents broken_rag ''query'' 3 stub_world
    = (Inr [alpha_doc], stub_world\<lparr>openai := (1, 0)\<rparr>)"
  by (simp add: rag_defs stub_defs broken_rag_def alpha_doc_def upt_rec)

lemma broken_generate:
  "generate_response broken_rag ''query'' [alpha_doc] (stub_world\<lparr>openai := (1, 0)\<rparr>)
    = (Inl (External ''generation failed''),
       stub_world\<lparr>openai := (1, 1),
         logger := [ERROR ''Error generating response: generation failed'']\<rparr>)"
  by (simp add: rag_defs stub_defs broken_rag_def)

lemma bad_core_search:
  "CoreRAG_search_documents stub_core ''bad'' 3 stub_entries
     = (Inl (External ''embedding failed''), stub_entries)"
  by (simp add: core_rag_defs stub_core_def stub_embed_def)

lemma broken_core_search:
  "CoreRAG_search_documents broken_core ''query'' 3 stub_entries
     = (Inr (take 3 (sort_key sr_distance (map (result_of stub_metric [5]) stub_entries))),
        stub_entries)"
  by (simp add: CoreRAG_search_documents_def VectorStore_search_def stub_core_def
      stub_embed_def broken_core_def)

lemma broken_core_generate:
  "CoreRAG_generate_response broken_core ''query'' docs stub_entries
     = (Inl (External ''generation failed''), stub_entries)"
  by (simp add: CoreRAG_generate_response_def stub_core_def broken_core_def)

theorem query_failure_propagates_witness:
  "query stub_rag ''bad'' 3 stub_world
     = (Inl (External ''embedding failed''),
        stub_world\<lparr>openai := (1, 0),
          logger := [ERROR ''Error creating embedding: embedding failed'',
                     ERROR ''Error searching documents: embedding failed'',
                     ERROR ''Error in RAG query: embedding failed'']\<rparr>)
   \<and> query broken_rag ''query'' 3 stub_world
     = (Inl (External ''generation failed''),
        stub_world\<lparr>openai := (1, 1),
          logger := [ERROR ''Error generating response: generation failed'',
                     ERROR ''Error in RAG query: generation failed'']\<rparr>)
   \<and> CoreRAG_query stub_core ''bad'' 3 stub_entries
     = (Inl (External ''embedding failed''), stub_entries)
   \<and> CoreRAG_query broken_core ''query'' 3 stub_entries
     = (Inl (External ''generation failed''), stub_entries)"
proof -
  let ?cdocs = "take 3 (sort_key sr_distance (map (result_of stub_metric [5]) stub_entries))"
  have 1: "query stub_rag ''bad'' 3 stub_world
     = (Inl (External ''embedding failed''),
        stub_world\<lparr>openai := (1, 0),
          logger := [ERROR ''Error creating embedding: embedding failed'',
                     ERROR ''Error searching documents: embedding failed'',
                     ERROR ''Error in RAG query: embedding failed'']\<rparr>)"
    using query_failure_propagates [where self = stub_rag and q = "''bad''" and k = 3
        and s = stub_world and e = "External ''embedding failed''",
        THEN conjunct1, THEN mp, OF bad_search]
    by simp
  have 2: "query broken_rag ''query'' 3 stub_world
     = (Inl (External ''generation failed''),
        stub_world\<lparr>openai := (1, 1),
          logger := [ERROR ''Error generating response: generation failed'',
                     ERROR ''Error in RAG query: generation failed'']\<rparr>)"
    using query_failure_propagates [where self = broken_rag and q = "''query''" and k = 3
        and s = stub_world and e = "External ''generation failed''" and docs = "[alpha_doc]",
        THEN conjunct2, THEN conjunct1, THEN mp, OF conjI [OF broken_search broken_generate]]
    by simp
  have 3: "CoreRAG_query stub_core ''bad'' 3 stub_entries
     = (Inl (External ''embedding failed''), stub_entries)"
    using query_failure_propagates [where core = stub_core and q = "''bad''" and k = 3
        and w = stub_entries and e = "External ''embedding failed''",
        THEN conjunct2, THEN conjunct2, THEN conjunct1, THEN mp, OF bad_core_search]
    by simp
  have 4: "CoreRAG_query broken_core ''query'' 3 stub_entries
     = (Inl (External ''generation failed''), stub_entries)"
    using query_failure_propagates [where core = broken_core and q = "''query''" and k = 3
        and w = stub_entries and e = "External ''generation failed''" and docs = ?cdocs,
        THEN conjunct2, THEN conjunct2, THEN conjunct2, THEN conjunct1, THEN mp,
        OF conjI [OF broken_core_search broken_core_generate]]
    by simp
  from 1 2 3 4 show ?thesis by simp
qed


end
